theory Spec2Isabelle
  imports Complex_Main "HOL-Library.Monad_Syntax"
begin

section \<open>Glob matching (Python's \<open>fnmatch\<close>)\<close>

text \<open>
  \<open>core/abstract.py\<close> and \<open>core/task.py\<close> match names against patterns with the
  standard library's \<open>fnmatch.fnmatch(name, pat)\<close> and \<open>fnmatch.filter(names, pat)\<close>.
  The library translates the pattern into a regular expression: \<open>*\<close> matches any
  run of characters, \<open>?\<close> one character, \<open>[seq]\<close> one character of a set (\<open>[!seq]\<close>
  one character outside it, \<open>a-c\<close> a range), everything else itself; an unclosed
  \<open>[\<close> is literal. On POSIX \<open>os.path.normcase\<close> is the identity, so matching is
  case sensitive. Strings are lists of 8-bit characters here.
\<close>

datatype glob_item = Star | AnyChar | Lit char | CharSet string

definition find_from :: "char \<Rightarrow> nat \<Rightarrow> string \<Rightarrow> nat option" where
  "find_from c k s =
     (if c \<in> set (drop k s) then Some (k + length (takeWhile (\<lambda>x. x \<noteq> c) (drop k s)))
      else None)"

definition close_bracket :: "string \<Rightarrow> nat option" where
  "close_bracket r =
     (let j0 = (if r \<noteq> [] \<and> hd r = CHR ''!'' then 1 else 0);
          j1 = (if j0 < length r \<and> r ! j0 = CHR '']'' then j0 + 1 else j0)
      in find_from (CHR '']'') j1 r)"

lemma takeWhile_neq_less: "c \<in> set xs \<Longrightarrow> length (takeWhile (\<lambda>x. x \<noteq> c) xs) < length xs"
  by (induction xs) auto

lemma find_from_less: "find_from c k s = Some j \<Longrightarrow> j < length s"
proof -
  assume a: "find_from c k s = Some j"
  then have mem: "c \<in> set (drop k s)" and j: "j = k + length (takeWhile (\<lambda>x. x \<noteq> c) (drop k s))"
    by (auto simp: find_from_def split: if_splits)
  from takeWhile_neq_less [OF mem] j show ?thesis by simp
qed

lemma close_bracket_less: "close_bracket r = Some j \<Longrightarrow> j < length r"
  by (auto simp: close_bracket_def Let_def dest: find_from_less)

function translate :: "string \<Rightarrow> glob_item list" where
  "translate [] = []"
| "translate (c # r) =
     (if c = CHR ''*'' then Star # translate r
      else if c = CHR ''?'' then AnyChar # translate r
      else if c = CHR ''['' then
        (case close_bracket r of
           None \<Rightarrow> Lit c # translate r
         | Some j \<Rightarrow> CharSet (take j r) # translate (drop (Suc j) r))
      else Lit c # translate r)"
  by pat_completeness auto
termination
  by (relation "measure length") (auto dest: close_bracket_less)

text \<open>
  The characters of a set: the library cuts the set's text at every hyphen that can
  join a range (the first is looked for one character in, two after a leading \<open>!\<close>;
  the next ones two characters after the previous hyphen), gives a trailing hyphen
  back to the last chunk, and drops every range whose bounds are in descending order.
\<close>

fun chunks_of :: "nat \<Rightarrow> string \<Rightarrow> string \<Rightarrow> string list" where
  "chunks_of skip cur [] = [rev cur]"
| "chunks_of skip cur (c # cs) =
     (if c = CHR ''-'' \<and> skip = 0 then rev cur # chunks_of 2 [] cs
      else chunks_of (skip - 1) (c # cur) cs)"

definition close_chunks :: "string list \<Rightarrow> string list" where
  "close_chunks cs =
     (if 2 \<le> length cs \<and> last cs = [] then butlast (butlast cs) @ [last (butlast cs) @ ''-'']
      else cs)"

definition char_gt :: "char \<Rightarrow> char \<Rightarrow> bool" where
  "char_gt a b = ((of_char b :: nat) < of_char a)"

fun drop_empty_ranges :: "string list \<Rightarrow> string list" where
  "drop_empty_ranges [] = []"
| "drop_empty_ranges [c] = [c]"
| "drop_empty_ranges (c # cs) =
     (case drop_empty_ranges cs of
        [] \<Rightarrow> [c]
      | d # ds \<Rightarrow>
          (if c \<noteq> [] \<and> d \<noteq> [] \<and> char_gt (last c) (hd d) then (butlast c @ tl d) # ds
           else c # d # ds))"

definition set_chunks :: "string \<Rightarrow> string list" where
  "set_chunks stuff =
     drop_empty_ranges
       (close_chunks (chunks_of (if stuff \<noteq> [] \<and> hd stuff = CHR ''!'' then 2 else 1) [] stuff))"

fun in_ranges :: "char \<Rightarrow> string list \<Rightarrow> bool" where
  "in_ranges x (c # d # ds) =
     ((c \<noteq> [] \<and> d \<noteq> [] \<and> \<not> char_gt (last c) x \<and> \<not> char_gt x (hd d)) \<or> in_ranges x (d # ds))"
| "in_ranges x _ = False"

definition in_chunks :: "char \<Rightarrow> string list \<Rightarrow> bool" where
  "in_chunks x cs = (x \<in> set (concat cs) \<or> in_ranges x cs)"

definition set_match :: "string \<Rightarrow> char \<Rightarrow> bool" where
  "set_match stuff x =
     (let cs = set_chunks stuff;
          neg = (cs \<noteq> [] \<and> hd cs \<noteq> [] \<and> hd (hd cs) = CHR ''!'')
      in if neg then \<not> in_chunks x (tl (hd cs) # tl cs) else in_chunks x cs)"

fun item_match :: "glob_item \<Rightarrow> char \<Rightarrow> bool" where
  "item_match Star x = True"
| "item_match AnyChar x = True"
| "item_match (Lit c) x = (x = c)"
| "item_match (CharSet stuff) x = set_match stuff x"

fun glob_match :: "glob_item list \<Rightarrow> string \<Rightarrow> bool" where
  "glob_match [] s = (s = [])"
| "glob_match (Star # ts) [] = glob_match ts []"
| "glob_match (Star # ts) (x # s) = (glob_match ts (x # s) \<or> glob_match (Star # ts) s)"
| "glob_match (t # ts) [] = False"
| "glob_match (t # ts) (x # s) = (item_match t x \<and> glob_match ts s)"

definition fnmatch :: "string \<Rightarrow> string \<Rightarrow> bool" where
  "fnmatch name pat = glob_match (translate pat) name"

definition fnmatch_filter :: "string list \<Rightarrow> string \<Rightarrow> string list" where
  "fnmatch_filter names pat = filter (\<lambda>n. fnmatch n pat) names"


section \<open>Routing: \<open>AbstractProcessor.accepts_from\<close> (core/abstract.py)\<close>

text \<open>
  A processor (transform or output) keeps its \<open>enabled\<close> flag and the four filters
  \<open>include_inputs\<close>, \<open>exclude_inputs\<close>, \<open>include_tasks\<close>, \<open>exclude_tasks\<close>; a filter
  that is not configured is \<open>None\<close>.
\<close>

record processor =
  enabled :: bool
  include_inputs :: "string list option"
  exclude_inputs :: "string list option"
  include_tasks :: "string list option"
  exclude_tasks :: "string list option"

definition any_match :: "string \<Rightarrow> string list \<Rightarrow> bool" where
  "any_match name fi = list_ex (\<lambda>p. fnmatch name p) fi"

definition accepts_from :: "processor \<Rightarrow> string \<Rightarrow> string \<Rightarrow> bool \<Rightarrow> bool" where
  "accepts_from self input_name task_name ignore_enabled =
     (if enabled self = False \<and> \<not> ignore_enabled then False
      else if (case include_inputs self of None \<Rightarrow> False
               | Some fi \<Rightarrow> \<not> any_match input_name fi) then False
      else if (case exclude_inputs self of None \<Rightarrow> False
               | Some fi \<Rightarrow> any_match input_name fi) then False
      else if (case include_tasks self of None \<Rightarrow> False
               | Some fi \<Rightarrow> \<not> any_match task_name fi) then False
      else if (case exclude_tasks self of None \<Rightarrow> False
               | Some fi \<Rightarrow> any_match task_name fi) then False
      else True)"

text \<open>The processor of the routing example: tasks \<open>foo*\<close> included, \<open>foobar\<close> excluded.\<close>

definition foo_processor :: processor where
  "foo_processor =
     \<lparr>enabled = True, include_inputs = None, exclude_inputs = None,
      include_tasks = Some [''foo*''], exclude_tasks = Some [''foobar'']\<rparr>"

section \<open>Python values and exceptions\<close>

text \<open>
  The exceptions the modelled code can raise. \<open>ValueInvalid\<close> is the validation error
  of the schema library, with its message; \<open>TaskPredicate\<close> is the control exception of
  the job queue; \<open>OtherError\<close> stands for any other exception a module raises.
\<close>

datatype exn =
    KeyError | TypeError | AttributeError | ValueError | IndexError | AssertionError
  | ValueInvalid string
  | TaskPredicate
  | OtherError string

text \<open>\<open>str(n)\<close> of an integer: its decimal digits, with a sign.\<close>

definition digit_char :: "nat \<Rightarrow> char" where
  "digit_char d = ''0123456789'' ! d"

function str_nat :: "nat \<Rightarrow> string" where
  "str_nat n = (if n < 10 then [digit_char n] else str_nat (n div 10) @ [digit_char (n mod 10)])"
  by pat_completeness auto
termination
  by (relation "measure id") auto

declare str_nat.simps [simp del]

definition str_int :: "int \<Rightarrow> string" where
  "str_int i = (if i < 0 then CHR ''-'' # str_nat (nat (- i)) else str_nat (nat i))"

text \<open>
  Values of a parsed YAML document or of a raw record: scalars, lists, and
  dictionaries in insertion order. Dictionary keys are strings, as in the
  configuration documents and JSON records this code handles; floats are exact
  rationals.
\<close>

datatype pyval =
    PNone
  | PBool bool
  | PInt int
  | PFloat rat
  | PStr string
  | PList "pyval list"
  | PDict "(string \<times> pyval) list"

text \<open>Truth value of an object, as \<open>if x:\<close> tests it.\<close>

fun py_truthy :: "pyval \<Rightarrow> bool" where
  "py_truthy PNone = False"
| "py_truthy (PBool b) = b"
| "py_truthy (PInt i) = (i \<noteq> 0)"
| "py_truthy (PFloat x) = (x \<noteq> 0)"
| "py_truthy (PStr s) = (s \<noteq> [])"
| "py_truthy (PList xs) = (xs \<noteq> [])"
| "py_truthy (PDict d) = (d \<noteq> [])"

text \<open>
  \<open>a == b\<close>: numbers compare by value across \<open>bool\<close>, \<open>int\<close> and \<open>float\<close>, lists
  element by element, dictionaries key by key whatever their order.
\<close>

fun py_num :: "pyval \<Rightarrow> rat option" where
  "py_num (PBool b) = Some (if b then 1 else 0)"
| "py_num (PInt i) = Some (of_int i)"
| "py_num (PFloat x) = Some x"
| "py_num _ = None"

fun py_eq :: "pyval \<Rightarrow> pyval \<Rightarrow> bool"
  and py_eq_list :: "pyval list \<Rightarrow> pyval list \<Rightarrow> bool"
  and py_eq_dict :: "(string \<times> pyval) list \<Rightarrow> (string \<times> pyval) list \<Rightarrow> bool" where
  "py_eq PNone b = (b = PNone)"
| "py_eq (PBool x) b = (py_num b = Some (if x then 1 else 0))"
| "py_eq (PInt i) b = (py_num b = Some (of_int i))"
| "py_eq (PFloat x) b = (py_num b = Some x)"
| "py_eq (PStr s) b = (b = PStr s)"
| "py_eq (PList xs) b = (case b of PList ys \<Rightarrow> py_eq_list xs ys | _ \<Rightarrow> False)"
| "py_eq (PDict d) b =
     (case b of PDict e \<Rightarrow> length d = length e \<and> py_eq_dict d e | _ \<Rightarrow> False)"
| "py_eq_list [] ys = (ys = [])"
| "py_eq_list (x # xs) ys = (case ys of [] \<Rightarrow> False | y # ys' \<Rightarrow> py_eq x y \<and> py_eq_list xs ys')"
| "py_eq_dict [] e = True"
| "py_eq_dict (kv # d) e =
     ((case map_of e (fst kv) of None \<Rightarrow> False | Some w \<Rightarrow> py_eq (snd kv) w) \<and> py_eq_dict d e)"

text \<open>Dictionary operations: \<open>d.get(k)\<close>, \<open>d[k] = v\<close> (a new key goes last), \<open>d.pop(k)\<close>.\<close>

definition dict_get :: "(string \<times> pyval) list \<Rightarrow> string \<Rightarrow> pyval option" where
  "dict_get d k = map_of d k"

fun dict_set :: "(string \<times> pyval) list \<Rightarrow> string \<Rightarrow> pyval \<Rightarrow> (string \<times> pyval) list" where
  "dict_set [] k v = [(k, v)]"
| "dict_set ((k', v') # d) k v = (if k' = k then (k, v) # d else (k', v') # dict_set d k v)"

definition dict_del :: "(string \<times> pyval) list \<Rightarrow> string \<Rightarrow> (string \<times> pyval) list" where
  "dict_del d k = filter (\<lambda>kv. fst kv \<noteq> k) d"

section \<open>Environment-variable expansion: \<open>EnvironmentVar\<close> (core/validation/validators.py)\<close>

text \<open>
  The validator calls \<open>os.path.expandvars\<close> and \<open>os.path.expanduser\<close> of the standard
  library (POSIX flavour). What they read from the operating system is a parameter:
  the environment, the home directory of the current user in the password database,
  and the home directories of named users.
\<close>

record system =
  environ :: "string \<rightharpoonup> string"
  pw_dir_uid :: "string option"
  pw_dir_name :: "string \<rightharpoonup> string"

definition is_word :: "char \<Rightarrow> bool" where
  "is_word c =
     (let n = (of_char c :: nat)
      in (48 \<le> n \<and> n \<le> 57) \<or> (65 \<le> n \<and> n \<le> 90) \<or> (97 \<le> n \<and> n \<le> 122) \<or> n = 95)"

text \<open>
  The library searches for \<open>\$(\w+|\{[^}]*\})\<close>. \<open>var_ref r\<close> is the match right after a
  dollar sign: the variable's name and the number of characters the reference takes.
\<close>

definition var_ref :: "string \<Rightarrow> (string \<times> nat) option" where
  "var_ref r =
     (case r of
        [] \<Rightarrow> None
      | c # r' \<Rightarrow>
          if is_word c then Some (takeWhile is_word r, length (takeWhile is_word r))
          else if c = CHR ''{'' \<and> CHR ''}'' \<in> set r' then
            Some (takeWhile (\<lambda>x. x \<noteq> CHR ''}'') r', length (takeWhile (\<lambda>x. x \<noteq> CHR ''}'') r') + 2)
          else None)"

lemma var_ref_le: "var_ref r = Some (name, n) \<Longrightarrow> n \<le> length r"
proof (cases r)
  case Nil
  assume "var_ref r = Some (name, n)"
  with Nil show ?thesis by (simp add: var_ref_def)
next
  case (Cons c r')
  assume a: "var_ref r = Some (name, n)"
  show ?thesis
  proof (cases "is_word c")
    case True
    with a Cons have "n = Suc (length (takeWhile is_word r'))"
      by (auto simp: var_ref_def)
    then show ?thesis using length_takeWhile_le [of is_word r'] Cons by simp
  next
    case False
    with a Cons have mem: "CHR ''}'' \<in> set r'"
      and n: "n = length (takeWhile (\<lambda>x. x \<noteq> CHR ''}'') r') + 2"
      by (auto simp: var_ref_def split: if_splits)
    from takeWhile_neq_less [OF mem] n Cons show ?thesis by simp
  qed
qed

function expandvars :: "(string \<rightharpoonup> string) \<Rightarrow> string \<Rightarrow> string" where
  "expandvars env [] = []"
| "expandvars env (c # r) =
     (if c = CHR ''$'' then
        (case var_ref r of
           None \<Rightarrow> c # expandvars env r
         | Some (name, n) \<Rightarrow>
             (case env name of
                None \<Rightarrow> c # take n r @ expandvars env (drop n r)
              | Some v \<Rightarrow> v @ expandvars env (drop n r)))
      else c # expandvars env r)"
  by pat_completeness auto
termination
  by (relation "measure (\<lambda>(env, s). length s)") auto

definition rstrip :: "char \<Rightarrow> string \<Rightarrow> string" where
  "rstrip c s = rev (dropWhile (\<lambda>x. x = c) (rev s))"

definition expanduser :: "system \<Rightarrow> string \<Rightarrow> string" where
  "expanduser sys path =
     (if \<not> (path \<noteq> [] \<and> hd path = CHR ''~'') then path
      else
        let i = (case find_from (CHR ''/'') 1 path of None \<Rightarrow> length path | Some k \<Rightarrow> k);
            home = (if i = 1 then
                      (case environ sys ''HOME'' of None \<Rightarrow> pw_dir_uid sys | Some h \<Rightarrow> Some h)
                    else pw_dir_name sys (take (i - 1) (drop 1 path)))
        in case home of
             None \<Rightarrow> path
           | Some userhome \<Rightarrow>
               (let res = rstrip (CHR ''/'') userhome @ drop i path
                in if res = [] then ''/'' else res))"

text \<open>A configuration leaf before validation; \<open>py_str\<close> is Python's \<open>str\<close> on it.\<close>

datatype leaf = LStr string | LInt int | LBool bool | LNone

fun py_str :: "leaf \<Rightarrow> string" where
  "py_str (LStr s) = s"
| "py_str (LInt i) = str_int i"
| "py_str (LBool b) = (if b then ''True'' else ''False'')"
| "py_str LNone = ''None''"

text \<open>
  \<open>EnvironmentVar.__call__(value, max_depth)\<close>; \<open>schema\<close> is the validator's
  \<open>return_type\<close>, which receives the final string and may raise. The constructor's
  default depth is 16.
\<close>

definition expand_pass :: "system \<Rightarrow> string \<Rightarrow> string" where
  "expand_pass sys value = expanduser sys (expandvars (environ sys) value)"

function EnvironmentVar_depth ::
  "system \<Rightarrow> (string \<Rightarrow> exn + 'a) \<Rightarrow> leaf \<Rightarrow> int \<Rightarrow> exn + 'a" where
  "EnvironmentVar_depth sys schema value max_depth =
     (if max_depth < 0 then
        Inl (ValueInvalid ''Max depth reached while expanding environment variables.'')
      else
        let v = py_str value; new = expand_pass sys v
        in if new = v then schema v
           else EnvironmentVar_depth sys schema (LStr new) (max_depth - 1))"
  by pat_completeness auto
termination
  by (relation "measure (\<lambda>(sys, schema, value, d). nat (d + 1))") auto

declare EnvironmentVar_depth.simps [simp del]

definition EnvironmentVar :: "system \<Rightarrow> (string \<Rightarrow> exn + 'a) \<Rightarrow> leaf \<Rightarrow> exn + 'a" where
  "EnvironmentVar sys schema value = EnvironmentVar_depth sys schema value 16"

text \<open>The default \<open>return_type\<close> is \<open>str\<close>.\<close>

definition str_schema :: "string \<Rightarrow> exn + string" where
  "str_schema v = Inr v"

section \<open>String methods of Python used by the validators\<close>

definition is_digit :: "char \<Rightarrow> bool" where
  "is_digit c = (let n = (of_char c :: nat) in 48 \<le> n \<and> n \<le> 57)"

definition is_alpha :: "char \<Rightarrow> bool" where
  "is_alpha c = (let n = (of_char c :: nat) in (65 \<le> n \<and> n \<le> 90) \<or> (97 \<le> n \<and> n \<le> 122))"

text \<open>The characters \<open>str.strip()\<close> removes, among the first 256 code points.\<close>

definition is_space :: "char \<Rightarrow> bool" where
  "is_space c =
     (let n = (of_char c :: nat)
      in (9 \<le> n \<and> n \<le> 13) \<or> (28 \<le> n \<and> n \<le> 32) \<or> n = 133 \<or> n = 160)"

definition isdigit :: "string \<Rightarrow> bool" where
  "isdigit s = (s \<noteq> [] \<and> list_all is_digit s)"


definition startswith :: "string \<Rightarrow> string \<Rightarrow> bool" where
  "startswith s pre = (take (length pre) s = pre)"


definition strip :: "string \<Rightarrow> string" where
  "strip s = rev (dropWhile is_space (rev (dropWhile is_space s)))"



text \<open>
  \<open>s.split(sep)\<close> for a separator that is not empty (Python raises \<open>ValueError\<close> on an
  empty one; the callers below check that before they split).
\<close>

function split_from :: "string \<Rightarrow> string \<Rightarrow> string \<Rightarrow> string list" where
  "split_from sep cur [] = [rev cur]"
| "split_from sep cur (x # xs) =
     (if sep \<noteq> [] \<and> take (length sep) (x # xs) = sep
      then rev cur # split_from sep [] (drop (length sep) (x # xs))
      else split_from sep (x # cur) xs)"
  by pat_completeness auto
termination
  by (relation "measure (\<lambda>(sep, cur, s). length s)") auto

definition split :: "string \<Rightarrow> string \<Rightarrow> string list" where
  "split s sep = split_from sep [] s"

definition digit_val :: "char \<Rightarrow> nat" where
  "digit_val c = of_char c - 48"

definition nat_of_digits :: "string \<Rightarrow> nat" where
  "nat_of_digits ds = foldl (\<lambda>acc c. 10 * acc + digit_val c) 0 ds"

section \<open>Duration parsing: \<open>TimeToSeconds\<close> (core/validation/validators.py)\<close>









text \<open>
  \<open>re.search(r"(\d+)([a-zA-Z]+)", s)\<close>: the leftmost run of digits that a letter
  follows, with the letters after it.
\<close>

fun re_search :: "string \<Rightarrow> (string \<times> string) option" where
  "re_search [] = None"
| "re_search (c # s) =
     (if is_digit c then
        (let rest = dropWhile is_digit s
         in if rest \<noteq> [] \<and> is_alpha (hd rest)
            then Some (c # takeWhile is_digit s, takeWhile is_alpha rest)
            else re_search s)
      else re_search s)"








text \<open>\<open>sep.join(parts)\<close>.\<close>

fun join :: "string \<Rightarrow> string list \<Rightarrow> string" where
  "join sep [] = []"
| "join sep [p] = p"
| "join sep (p # q # ps) = p @ sep @ join sep (q # ps)"





section \<open>Metric extraction: \<open>flatten\<close> (core/helpers.py), \<open>extract_metrics\<close> and
  \<open>process_result\<close> (core/task.py)\<close>

text \<open>
  \<open>flatten(mapping)\<close> without separator, as \<open>extract_metrics\<close> calls it: the leaves of
  the nested value with their key chains, a chain being made of dictionary keys and
  list indices. A dictionary or a list is descended into, anything else is a leaf. The
  keys of a Python dictionary are distinct, so the chains are distinct and the merge
  \<open>flattened |= ...\<close> only adds entries.
\<close>

datatype chain_key = KStr string | KIdx nat

fun str_key :: "chain_key \<Rightarrow> string" where
  "str_key (KStr s) = s"
| "str_key (KIdx i) = str_nat i"

fun flatten_dict :: "chain_key list \<Rightarrow> (string \<times> pyval) list \<Rightarrow> (chain_key list \<times> pyval) list"
  and flatten_list :: "chain_key list \<Rightarrow> nat \<Rightarrow> pyval list \<Rightarrow> (chain_key list \<times> pyval) list"
  and flatten_entry :: "chain_key list \<Rightarrow> pyval \<Rightarrow> (chain_key list \<times> pyval) list" where
  "flatten_dict chain [] = []"
| "flatten_dict chain (kv # d) =
     flatten_entry (chain @ [KStr (fst kv)]) (snd kv) @ flatten_dict chain d"
| "flatten_list chain i [] = []"
| "flatten_list chain i (v # vs) =
     flatten_entry (chain @ [KIdx i]) v @ flatten_list chain (Suc i) vs"
| "flatten_entry k_chain (PDict d) = flatten_dict k_chain d"
| "flatten_entry k_chain (PList vs) = flatten_list k_chain 0 vs"
| "flatten_entry k_chain PNone = [(k_chain, PNone)]"
| "flatten_entry k_chain (PBool b) = [(k_chain, PBool b)]"
| "flatten_entry k_chain (PInt i) = [(k_chain, PInt i)]"
| "flatten_entry k_chain (PFloat x) = [(k_chain, PFloat x)]"
| "flatten_entry k_chain (PStr s) = [(k_chain, PStr s)]"

definition flatten :: "(string \<times> pyval) list \<Rightarrow> (chain_key list \<times> pyval) list" where
  "flatten mapping = flatten_dict [] mapping"

text \<open>
  The keys of the dictionary \<open>keys\<close> of \<open>extract_metrics\<close>: every chain joined by the
  separator, a string that occurs twice staying at its first place.
\<close>

definition first_occurrences :: "string list \<Rightarrow> string list" where
  "first_occurrences ks = rev (remdups (rev ks))"

definition key_pool :: "string \<Rightarrow> (string \<times> pyval) list \<Rightarrow> string list" where
  "key_pool sep obj =
     first_occurrences (map (\<lambda>f. join sep (map str_key (fst f))) (flatten obj))"

text \<open>
  \<open>nested = reduce(operator.getitem, chain, obj)\<close> followed by \<open>nested.pop(top)\<close>, with
  the nested dictionary changed in place (\<open>top_key\<close> is the source's \<open>top\<close>): the
  result is the popped value and the
  object after the pop. Indexing with a string works on a dictionary only (\<open>KeyError\<close>
  for a missing key, \<open>TypeError\<close> on anything else); \<open>pop\<close> with a string raises
  \<open>TypeError\<close> on a list, and a scalar has no \<open>pop\<close>.
\<close>

fun pop_path :: "pyval \<Rightarrow> string list \<Rightarrow> string \<Rightarrow> exn + (pyval \<times> pyval)" where
  "pop_path obj [] top_key =
     (case obj of
        PDict d \<Rightarrow>
          (case dict_get d top_key of
             None \<Rightarrow> Inl KeyError
           | Some v \<Rightarrow> Inr (v, PDict (dict_del d top_key)))
      | PList vs \<Rightarrow> Inl TypeError
      | _ \<Rightarrow> Inl AttributeError)"
| "pop_path obj (c # chain) top_key =
     (case obj of
        PDict d \<Rightarrow>
          (case dict_get d c of
             None \<Rightarrow> Inl KeyError
           | Some sub \<Rightarrow>
               (case pop_path sub chain top_key of
                  Inl e \<Rightarrow> Inl e
                | Inr (v, sub') \<Rightarrow> Inr (v, PDict (dict_set d c sub'))))
      | _ \<Rightarrow> Inl TypeError)"

text \<open>
  The inner loop over the keys one pattern matched, and the outer loop over the
  patterns. Each returns the pairs it yields and the object after its pops;
  \<open>key.split(sep)\<close> raises \<open>ValueError\<close> for an empty separator. The keys a pattern
  claimed are deleted from the pool before the next pattern is matched.
\<close>

fun extract_keys :: "string \<Rightarrow> string list \<Rightarrow> pyval \<Rightarrow> exn + ((string \<times> pyval) list \<times> pyval)" where
  "extract_keys sep [] obj = Inr ([], obj)"
| "extract_keys sep (key # keys) obj =
     (if sep = [] then Inl ValueError
      else
        (case pop_path obj (butlast (split key sep)) (last (split key sep)) of
           Inl e \<Rightarrow> Inl e
         | Inr (v, obj') \<Rightarrow>
             (case extract_keys sep keys obj' of
                Inl e \<Rightarrow> Inl e
              | Inr (ys, obj'') \<Rightarrow> Inr ((key, v) # ys, obj''))))"

fun extract_patterns ::
  "string \<Rightarrow> string list \<Rightarrow> string list \<Rightarrow> pyval \<Rightarrow> exn + ((string \<times> pyval) list \<times> pyval)" where
  "extract_patterns sep pool [] obj = Inr ([], obj)"
| "extract_patterns sep pool (pattern # patterns) obj =
     (case extract_keys sep (fnmatch_filter pool pattern) obj of
        Inl e \<Rightarrow> Inl e
      | Inr (ys, obj') \<Rightarrow>
          (case extract_patterns sep
                  (filter (\<lambda>k. k \<notin> set (fnmatch_filter pool pattern)) pool) patterns obj' of
             Inl e \<Rightarrow> Inl e
           | Inr (zs, obj'') \<Rightarrow> Inr (ys @ zs, obj'')))"

text \<open>
  \<open>extract_metrics(obj, sep, fields)\<close> (the pattern list \<open>fields\<close> is \<open>patterns\<close> here), run to its end as \<open>dict(...)\<close> does in
  \<open>process_result\<close>: the yielded pairs and the record as the pops left it.
  \<open>fields or []\<close> makes an unset pattern list empty.
\<close>

definition extract_metrics ::
  "(string \<times> pyval) list \<Rightarrow> string \<Rightarrow> string list option \<Rightarrow>
   exn + ((string \<times> pyval) list \<times> pyval)" where
  "extract_metrics obj sep patterns =
     extract_patterns sep (key_pool sep obj) (case patterns of None \<Rightarrow> [] | Some fs \<Rightarrow> fs) (PDict obj)"

text \<open>
  The part of a task's configuration \<open>process_result\<close> reads: the metric patterns and
  the attribute allow-list of \<open>result\<close>, and the static attributes (the schema allows
  \<open>None\<close> for each).
\<close>

record task_config =
  metrics :: "string list option"
  attributes :: "string list option"
  static_attributes :: "(string \<times> pyval) list option"



text \<open>
  The arguments of one call \<open>Metric(data, attributes, metric, metric_name)\<close>; the
  class itself (core/metric.py) is taken as a parameter of \<open>process_result\<close>.
\<close>

record metric_args =
  attrs :: "(string \<times> pyval) list"
  metric :: "pyval option"
  metric_name :: "string option"




datatype source_result = Records "(string \<times> pyval) list list" | Record "(string \<times> pyval) list"












section \<open>Validation failure: \<open>walk_similar_key\<close>, \<open>print_validation_error\<close> and \<open>validate\<close>
  (core/validation/helpers.py)\<close>

text \<open>
  \<open>difflib.get_close_matches(word, possibilities, n=1, cutoff=0.5)\<close> of the standard
  library, for words shorter than 200 characters (no element counts as junk then). The
  similarity of a possibility \<open>a\<close> to the word \<open>b\<close> is \<open>2 * M / (len(a) + len(b))\<close>, where
  \<open>M\<close> is the total size of the matching blocks: the longest common block (the earliest
  in \<open>a\<close>, then in \<open>b\<close>, among the longest), and recursively the blocks to its left and to
  its right. The best possibility with a similarity of at least 0.5 is returned, the
  greater string winning a tie.
\<close>

fun common_prefix :: "string \<Rightarrow> string \<Rightarrow> nat" where
  "common_prefix (x # xs) (y # ys) = (if x = y then Suc (common_prefix xs ys) else 0)"
| "common_prefix _ _ = 0"

definition pick_longer :: "nat \<times> nat \<times> nat \<Rightarrow> nat \<times> nat \<times> nat \<Rightarrow> nat \<times> nat \<times> nat" where
  "pick_longer c best = (if snd (snd best) < snd (snd c) then c else best)"

definition find_longest_match :: "string \<Rightarrow> string \<Rightarrow> nat \<times> nat \<times> nat" where
  "find_longest_match a b =
     fold pick_longer
       (concat (map (\<lambda>i. map (\<lambda>j. (i, j, common_prefix (drop i a) (drop j b))) [0..<length b])
                    [0..<length a]))
       (0, 0, 0)"

lemma fold_pick_longer: "fold pick_longer cs best \<in> insert best (set cs)"
  by (induction cs arbitrary: best) (auto simp: pick_longer_def)

lemma find_longest_match_bounds:
  "find_longest_match a b = (i, j, k) \<Longrightarrow> k \<noteq> 0 \<Longrightarrow> i < length a \<and> j < length b"
  using fold_pick_longer [of
      "concat (map (\<lambda>i. map (\<lambda>j. (i, j, common_prefix (drop i a) (drop j b))) [0..<length b])
                   [0..<length a])" "(0, 0, 0)"]
  by (auto simp: find_longest_match_def)

function matching_size :: "string \<Rightarrow> string \<Rightarrow> nat" where
  "matching_size a b =
     (case find_longest_match a b of
        (i, j, k) \<Rightarrow>
          if k = 0 then 0
          else k + matching_size (take i a) (take j b)
                 + matching_size (drop (i + k) a) (drop (j + k) b))"
  by pat_completeness auto
termination
  by (relation "measure (\<lambda>(a, b). length a + length b)")
     (auto dest!: find_longest_match_bounds [OF sym])

declare matching_size.simps [simp del]

definition ratio :: "string \<Rightarrow> string \<Rightarrow> rat" where
  "ratio a b =
     (if length a + length b = 0 then 1
      else 2 * of_nat (matching_size a b) / of_nat (length a + length b))"

fun str_less :: "string \<Rightarrow> string \<Rightarrow> bool" where
  "str_less [] ys = (ys \<noteq> [])"
| "str_less (x # xs) [] = False"
| "str_less (x # xs) (y # ys) =
     ((of_char x :: nat) < of_char y \<or> (x = y \<and> str_less xs ys))"

definition pick_better :: "rat \<times> string \<Rightarrow> rat \<times> string \<Rightarrow> rat \<times> string" where
  "pick_better c best =
     (if fst best < fst c \<or> (fst c = fst best \<and> str_less (snd best) (snd c)) then c else best)"

definition get_close_matches :: "string \<Rightarrow> string list \<Rightarrow> string list" where
  "get_close_matches word possibilities =
     (case filter (\<lambda>c. 1 / 2 \<le> fst c) (map (\<lambda>x. (ratio x word, x)) possibilities) of
        [] \<Rightarrow> []
      | c # cs \<Rightarrow> [snd (fold pick_better cs c)])"

text \<open>
  A path element of a validation error is a key or an index. The schema object of the
  validation library, as far as \<open>walk_similar_key\<close> looks at it, is a dictionary, a list,
  an object with an attribute \<open>schema\<close>, or a validator without one.
\<close>

datatype path_elem = PKey string | PIdx nat

datatype schema =
  SDict "(path_elem \<times> schema) list" | SList "schema list" | SWrap schema | SLeaf

fun str_elem :: "path_elem \<Rightarrow> string" where
  "str_elem (PKey s) = s"
| "str_elem (PIdx i) = str_nat i"

text \<open>\<open>while hasattr(group, "schema"): group = getattr(group, "schema")\<close>.\<close>

fun unwrap :: "schema \<Rightarrow> schema" where
  "unwrap (SWrap g) = unwrap g"
| "unwrap g = g"

text \<open>\<open>group[p]\<close> for a path element.\<close>

definition schema_getitem :: "schema \<Rightarrow> path_elem \<Rightarrow> exn + schema" where
  "schema_getitem grp p =
     (case grp of
        SDict d \<Rightarrow> (case map_of d p of None \<Rightarrow> Inl KeyError | Some g \<Rightarrow> Inr g)
      | SList gs \<Rightarrow>
          (case p of
             PKey k \<Rightarrow> Inl TypeError
           | PIdx i \<Rightarrow> if i < length gs then Inr (gs ! i) else Inl IndexError)
      | _ \<Rightarrow> Inl TypeError)"

text \<open>
  \<open>int(p)\<close>: on a string, blanks around it are dropped, a sign may come first, and the
  digits may be grouped by single underscores.
\<close>

definition int_str :: "string \<Rightarrow> exn + int" where
  "int_str s =
     (let t = strip s;
          u = (if startswith t ''-'' \<or> startswith t ''+'' then drop 1 t else t);
          groups = split u ''_''
      in if list_all isdigit groups
         then Inr ((if startswith t ''-'' then - 1 else 1) * int (nat_of_digits (concat groups)))
         else Inl ValueError)"

definition int_elem :: "path_elem \<Rightarrow> exn + int" where
  "int_elem p = (case p of PIdx i \<Rightarrow> Inr (int i) | PKey k \<Rightarrow> int_str k)"

text \<open>
  \<open>group[min(int(p), len(group) - 1)]\<close>; a negative index of a list counts from its
  end.
\<close>

definition schema_getitem_min :: "schema \<Rightarrow> path_elem \<Rightarrow> exn + schema" where
  "schema_getitem_min grp p =
     (case int_elem p of
        Inl e \<Rightarrow> Inl e
      | Inr i \<Rightarrow>
          (case grp of
             SList gs \<Rightarrow>
               (let idx = min i (int (length gs) - 1)
                in if 0 \<le> idx then Inr (gs ! nat idx)
                   else if - int (length gs) \<le> idx then Inr (gs ! nat (int (length gs) + idx))
                   else Inl IndexError)
           | SDict d \<Rightarrow>
               (let idx = min i (int (length d) - 1)
                in if 0 \<le> idx
                   then (case map_of d (PIdx (nat idx)) of
                           None \<Rightarrow> Inl KeyError
                         | Some g \<Rightarrow> Inr g)
                   else Inl KeyError)
           | _ \<Rightarrow> Inl TypeError))"

text \<open>\<open>config[p]\<close> on a configuration value; the keys of its dictionaries are strings.\<close>

definition config_getitem :: "pyval \<Rightarrow> path_elem \<Rightarrow> exn + pyval" where
  "config_getitem config p =
     (case config of
        PDict d \<Rightarrow>
          (case p of
             PKey k \<Rightarrow> (case dict_get d k of None \<Rightarrow> Inl KeyError | Some v \<Rightarrow> Inr v)
           | PIdx i \<Rightarrow> Inl KeyError)
      | PList vs \<Rightarrow>
          (case p of
             PKey k \<Rightarrow> Inl TypeError
           | PIdx i \<Rightarrow> if i < length vs then Inr (vs ! i) else Inl IndexError)
      | PStr s \<Rightarrow>
          (case p of
             PKey k \<Rightarrow> Inl TypeError
           | PIdx i \<Rightarrow> if i < length s then Inr (PStr [s ! i]) else Inl IndexError)
      | _ \<Rightarrow> Inl TypeError)"

definition is_list :: "pyval \<Rightarrow> bool" where
  "is_list v = (case v of PList vs \<Rightarrow> True | _ \<Rightarrow> False)"

text \<open>
  The loop of \<open>walk_similar_key\<close> over the path: the schema group and the configuration
  value it ends at. A \<open>KeyError\<close> of \<open>config[p]\<close> ends the loop; any other exception
  leaves the function.
\<close>

fun walk :: "schema \<Rightarrow> pyval \<Rightarrow> path_elem list \<Rightarrow> exn + (schema \<times> pyval)" where
  "walk grp config [] = Inr (grp, config)"
| "walk grp config (p # path) =
     (case (if is_list config then schema_getitem_min grp p else schema_getitem grp p) of
        Inl e \<Rightarrow> Inl e
      | Inr g \<Rightarrow>
          (case config_getitem config p of
             Inl e \<Rightarrow> if e = KeyError then Inr (unwrap g, config) else Inl e
           | Inr c \<Rightarrow> walk (unwrap g) c path))"

text \<open>\<open>[str(k) for k in group.keys()] if isinstance(group, dict) else []\<close>.\<close>

definition schema_keys :: "schema \<Rightarrow> string list" where
  "schema_keys grp = (case grp of SDict d \<Rightarrow> map (str_elem \<circ> fst) d | _ \<Rightarrow> [])"

text \<open>\<open>f"{config[:55]}..." if len(config) > 55 else config\<close>.\<close>

definition preview :: "string \<Rightarrow> string" where
  "preview config = (if 55 < length config then take 55 config @ ''...'' else config)"

text \<open>
  A validator is called on a configuration and has the attribute \<open>schema\<close>; it returns
  the validated configuration or raises \<open>Invalid\<close>, which is one error or several. An
  error has a class name, a path and a message.
\<close>

record error =
  err_class :: string
  err_path :: "path_elem list"
  err_msg :: string

datatype invalid = Invalid error | MultipleInvalid "error list"

record validator =
  v_call :: "pyval \<Rightarrow> invalid + pyval"
  v_schema :: schema

text \<open>
  \<open>walk_similar_key(schema, config, path, key)\<close>. \<open>render\<close> is
  \<open>str(...).encode("unicode_escape").decode()\<close> on a configuration value, a parameter.
\<close>

definition walk_similar_key ::
  "(pyval \<Rightarrow> string) \<Rightarrow> validator \<Rightarrow> pyval \<Rightarrow> path_elem list \<Rightarrow> path_elem \<Rightarrow>
   exn + (string list \<times> string) option" where
  "walk_similar_key render schema config path key =
     (case walk (v_schema schema) config path of
        Inl e \<Rightarrow> Inl e
      | Inr (grp, config') \<Rightarrow>
          (let matches = get_close_matches (str_elem key) (schema_keys grp)
           in if matches \<noteq> [] then
                (case config_getitem config' key of
                   Inl e \<Rightarrow> Inl e
                 | Inr v \<Rightarrow> Inr (Some (matches, preview (render v))))
              else Inr None))"

text \<open>
  What \<open>print_validation_error\<close> prints for one error: the line of the field, with the
  class of the error, and the line of the message. The decorations of the lines are
  left out. An error without a path has no key; the suggestion is looked for when the
  message is that of an extra key and the key is truthy.
\<close>

datatype printed = Field string string | Error string | Critical string

definition field_text :: "path_elem list \<Rightarrow> string" where
  "field_text error_path =
     (if error_path = [] then ''No error path found!''
      else concat (map (\<lambda>s. ''['' @ s @ '']'') (''<>'' # map str_elem (butlast error_path)))
           @ '' > '' @ str_elem (last error_path))"

fun elem_truthy :: "path_elem \<Rightarrow> bool" where
  "elem_truthy (PKey s) = (s \<noteq> [])"
| "elem_truthy (PIdx i) = (i \<noteq> 0)"

definition extra_key :: "error \<Rightarrow> bool" where
  "extra_key err =
     (err_msg err = ''extra keys not allowed'' \<and> err_path err \<noteq> [] \<and>
      elem_truthy (last (err_path err)))"

definition with_mark :: "string \<Rightarrow> string" where
  "with_mark msg =
     (if msg \<noteq> [] \<and> last msg \<in> set ''.!?'' then msg else msg @ ''.'')"

definition print_error ::
  "(pyval \<Rightarrow> string) \<Rightarrow> validator \<Rightarrow> pyval \<Rightarrow> error \<Rightarrow> exn + printed list" where
  "print_error render schema configuration err =
     (case (if extra_key err
            then
              (case walk_similar_key render schema configuration (butlast (err_path err))
                      (last (err_path err)) of
                 Inl e \<Rightarrow> Inl e
               | Inr (Some found) \<Rightarrow>
                   Inr (err_msg err @ ''. Did you mean: `'' @ hd (fst found) @ '': '' @ snd found
                        @ ''`?'')
               | Inr None \<Rightarrow>
                   Inr (err_msg err @ ''. No close matches found for `''
                        @ str_elem (last (err_path err)) @ ''`''))
            else Inr (err_msg err)) of
        Inl e \<Rightarrow> Inl e
      | Inr msg \<Rightarrow>
          Inr [Field (err_class err) (field_text (err_path err)), Error (with_mark msg)])"

fun print_errors ::
  "(pyval \<Rightarrow> string) \<Rightarrow> validator \<Rightarrow> pyval \<Rightarrow> error list \<Rightarrow> exn + printed list" where
  "print_errors render schema configuration [] = Inr []"
| "print_errors render schema configuration (err # errors) =
     (case print_error render schema configuration err of
        Inl e \<Rightarrow> Inl e
      | Inr out \<Rightarrow>
          (case print_errors render schema configuration errors of
             Inl e \<Rightarrow> Inl e
           | Inr outs \<Rightarrow> Inr (out @ outs)))"

text \<open>\<open>errors.errors if isinstance(errors, MultipleInvalid) else [errors]\<close>.\<close>

definition errors_of :: "invalid \<Rightarrow> error list" where
  "errors_of errors = (case errors of MultipleInvalid es \<Rightarrow> es | Invalid e \<Rightarrow> [e])"

definition print_validation_error ::
  "(pyval \<Rightarrow> string) \<Rightarrow> validator \<Rightarrow> pyval \<Rightarrow> invalid \<Rightarrow> exn + printed list" where
  "print_validation_error render schema configuration errors =
     print_errors render schema configuration (errors_of errors)"

text \<open>
  \<open>validate(configuration, validator)\<close>: what was printed and logged, and how the call
  ends: with the validated configuration, with \<open>sys.exit\<close>, or with an exception.
\<close>

datatype outcome = Valid pyval | SystemExit nat | Uncaught exn

definition check_configuration :: string where
  "check_configuration = ''Please check your configuration or documentation for more details.''"

definition validate :: "(pyval \<Rightarrow> string) \<Rightarrow> pyval \<Rightarrow> validator \<Rightarrow> printed list \<times> outcome" where
  "validate render configuration validator =
     (case configuration of
        PDict d \<Rightarrow>
          (case v_call validator configuration of
             Inr v \<Rightarrow> ([], Valid v)
           | Inl e \<Rightarrow>
               (case print_validation_error render validator configuration e of
                  Inl x \<Rightarrow> ([], Uncaught x)
                | Inr out \<Rightarrow> (out @ [Critical check_configuration], SystemExit 2)))
      | _ \<Rightarrow> ([], Uncaught AssertionError))"





definition render_scalar :: "pyval \<Rightarrow> string" where
  "render_scalar v =
     (case v of PInt i \<Rightarrow> str_int i | PStr s \<Rightarrow> s | PBool b \<Rightarrow> (if b then ''True'' else ''False'')
      | _ \<Rightarrow> ''None'')"

section \<open>The frame: \<open>MetricFrame\<close> (core/metric.py)\<close>

text \<open>
  Modelled from the spec: the class \<open>MetricFrame\<close> of core/metric.py, which is not among
  the sources; only its callers (core/task.py, core/abstract.py) and its tests are. The
  specification describes a frame as an ordered sequence of metrics with a name and a
  creation timestamp, mutable by append and whole-range replace until it is frozen;
  freezing is one-way and makes every further mutation fail; a copy is an independent,
  mutable clone. The test of freezing expects \<open>TypeError\<close> from a mutation after
  \<open>freeze\<close>. Frames are objects with identity: they live in a store, at addresses.
\<close>

record 'm metric_frame =
  frame_items :: "'m list"
  frame_frozen :: bool
  frame_name :: string
  creation_timestamp :: rat

record 'm store =
  cells :: "nat \<Rightarrow> 'm metric_frame"
  next_free :: nat


datatype 'm frame_op = Append 'm | Replace "'m list" | SetTimestamp rat

fun mutate :: "'m frame_op \<Rightarrow> 'm metric_frame \<Rightarrow> 'm metric_frame" where
  "mutate (Append m) f = f\<lparr>frame_items := frame_items f @ [m]\<rparr>"
| "mutate (Replace ms) f = f\<lparr>frame_items := ms\<rparr>"
| "mutate (SetTimestamp t) f = f\<lparr>creation_timestamp := t\<rparr>"

definition apply_op :: "'m store \<Rightarrow> nat \<Rightarrow> 'm frame_op \<Rightarrow> exn + 'm store" where
  "apply_op st a op =
     (if frame_frozen (cells st a) then Inl TypeError
      else Inr (st\<lparr>cells := (cells st)(a := mutate op (cells st a))\<rparr>))"

fun apply_ops :: "'m store \<Rightarrow> nat \<Rightarrow> 'm frame_op list \<Rightarrow> exn + 'm store" where
  "apply_ops st a [] = Inr st"
| "apply_ops st a (op # ops) =
     (case apply_op st a op of Inl e \<Rightarrow> Inl e | Inr st' \<Rightarrow> apply_ops st' a ops)"

definition freeze :: "'m store \<Rightarrow> nat \<Rightarrow> 'm store" where
  "freeze st a = st\<lparr>cells := (cells st)(a := (cells st a)\<lparr>frame_frozen := True\<rparr>)\<rparr>"

definition frame_copy :: "'m store \<Rightarrow> nat \<Rightarrow> nat \<times> 'm store" where
  "frame_copy st a =
     (next_free st,
      st\<lparr>cells := (cells st)(next_free st := (cells st a)\<lparr>frame_frozen := False\<rparr>),
         next_free := Suc (next_free st)\<rparr>)"

section \<open>The task pipeline: \<open>AbstractIO.modify\<close> (core/abstract.py), \<open>streamlet_exec\<close> and
  \<open>run\<close> (core/task.py)\<close>


record io_modifiers =
  time_modulus :: rat
  time_offset :: rat

text \<open>Python's \<open>x % m\<close> on numbers takes the sign of \<open>m\<close>.\<close>

definition py_mod :: "rat \<Rightarrow> rat \<Rightarrow> rat" where
  "py_mod x m = x - m * of_int \<lfloor>x / m\<rfloor>"

definition modify :: "io_modifiers \<Rightarrow> 'm store \<Rightarrow> nat \<Rightarrow> exn + 'm store" where
  "modify modifiers st a =
     (let timestamp = creation_timestamp (cells st a);
          t1 = (if time_modulus modifiers \<noteq> 0
                then timestamp - py_mod timestamp (time_modulus modifiers) else timestamp);
          t2 = (if time_offset modifiers \<noteq> 0 then t1 - time_offset modifiers else t1)
      in apply_op st a (SetTimestamp t2))"

text \<open>
  The modules of a flow, as a task run sees them. What a module does when it is called
  is its behaviour in this run: an input returns records or raises; a transform or an
  output, given the frame, performs mutations of that frame and then possibly raises.
\<close>

record input_module =
  in_name :: string
  in_modifiers :: io_modifiers
  in_call :: "exn + source_result"

record 'm transform_module =
  tr_name :: string
  tr_filters :: processor
  tr_call :: "'m metric_frame \<Rightarrow> 'm frame_op list \<times> exn option"

record 'm output_module =
  out_name :: string
  out_filters :: processor
  out_modifiers :: io_modifiers
  out_call :: "'m metric_frame \<Rightarrow> 'm frame_op list \<times> exn option"

text \<open>
  A task with what \<open>streamlet_exec\<close> reads: its name, \<open>config\<close>, the separator
  \<open>Settings.nested_attr_seperator\<close>, the class \<open>Metric\<close>, its input, and the transforms
  and outputs of the flow (the transforms sorted by priority when the flow was built).
\<close>

record 'm task =
  task_name :: string
  task_conf :: task_config
  task_sep :: string
  task_Metric :: "metric_args \<Rightarrow> exn + 'm"
  task_input :: input_module
  task_transforms :: "'m transform_module list"
  task_outputs :: "'m output_module list"

text \<open>
  The two loops of \<open>streamlet_exec\<close> over the accepting modules. Each returns the name
  last written to \<open>task_data["last_module"]\<close>, the store, and the exception that ended
  the loop, if any. A transform works on the frame itself, an output on a fresh copy
  of the frozen frame, which \<open>modify\<close> adjusts first.
\<close>

fun run_transforms ::
  "'m transform_module list \<Rightarrow> string \<Rightarrow> 'm store \<Rightarrow> nat \<Rightarrow> string \<times> 'm store \<times> exn option" where
  "run_transforms [] last_module st a = (last_module, st, None)"
| "run_transforms (modl # modls) last_module st a =
     (case apply_ops st a (fst (tr_call modl (cells st a))) of
        Inl e \<Rightarrow> (tr_name modl, st, Some e)
      | Inr st' \<Rightarrow>
          (case snd (tr_call modl (cells st a)) of
             Some e \<Rightarrow> (tr_name modl, st', Some e)
           | None \<Rightarrow> run_transforms modls (tr_name modl) st' a))"

fun run_outputs ::
  "'m output_module list \<Rightarrow> string \<Rightarrow> 'm store \<Rightarrow> nat \<Rightarrow> string \<times> 'm store \<times> exn option" where
  "run_outputs [] last_module st a = (last_module, st, None)"
| "run_outputs (modl # modls) last_module st a =
     (let finished_data = fst (frame_copy st a); st1 = snd (frame_copy st a)
      in case modify (out_modifiers modl) st1 finished_data of
           Inl e \<Rightarrow> (out_name modl, st1, Some e)
         | Inr st2 \<Rightarrow>
             (case apply_ops st2 finished_data (fst (out_call modl (cells st2 finished_data))) of
                Inl e \<Rightarrow> (out_name modl, st2, Some e)
              | Inr st3 \<Rightarrow>
                  (case snd (out_call modl (cells st2 finished_data)) of
                     Some e \<Rightarrow> (out_name modl, st3, Some e)
                   | None \<Rightarrow> run_outputs modls (out_name modl) st3 a)))"










text \<open>
  A store for the examples: one frame with the metric \<open>1\<close> at address 0; a sink that
  appends a metric to the frame it is given; the always failing flow of the retry
  example, whose input raises in every attempt.
\<close>

definition one_frame :: "nat store" where
  "one_frame =
     \<lparr>cells = (\<lambda>a. \<lparr>frame_items = [1], frame_frozen = False, frame_name = ''task'',
                     creation_timestamp = 0\<rparr>),
      next_free = 1\<rparr>"

definition appending_sink :: "nat output_module" where
  "appending_sink =
     \<lparr>out_name = ''sink'',
      out_filters = \<lparr>enabled = True, include_inputs = None, exclude_inputs = None,
                     include_tasks = None, exclude_tasks = None\<rparr>,
      out_modifiers = \<lparr>time_modulus = 0, time_offset = 0\<rparr>,
      out_call = (\<lambda>f. ([Append 7], None))\<rparr>"




section \<open>Template merge: \<open>extend\<close> in \<open>StreamletFlow.load_extensions\<close> (core/flow.py)\<close>

text \<open>
  \<open>item.get("name")\<close> of an extension item that is a dictionary, when it is truthy.
\<close>

definition item_name :: "pyval \<Rightarrow> pyval option" where
  "item_name item =
     (case item of
        PDict d \<Rightarrow> (case dict_get d ''name'' of
                      Some n \<Rightarrow> if py_truthy n then Some n else None
                    | None \<Rightarrow> None)
      | _ \<Rightarrow> None)"

text \<open>\<open>b.get("name")\<close>: only a dictionary has \<open>get\<close>; a missing key gives \<open>None\<close>.\<close>

definition get_name :: "pyval \<Rightarrow> exn + pyval" where
  "get_name b =
     (case b of
        PDict d \<Rightarrow> Inr (case dict_get d ''name'' of Some n \<Rightarrow> n | None \<Rightarrow> PNone)
      | _ \<Rightarrow> Inl AttributeError)"

text \<open>
  The inner loop \<open>for i, b in enumerate(base)\<close> over a list: the index of the first
  item whose name equals \<open>name\<close>, or \<open>None\<close> when the loop ends without \<open>break\<close>.
\<close>

fun find_named :: "pyval list \<Rightarrow> pyval \<Rightarrow> nat \<Rightarrow> exn + nat option" where
  "find_named [] name i = Inr None"
| "find_named (b # bs) name i =
     (case get_name b of
        Inl e \<Rightarrow> Inl e
      | Inr n \<Rightarrow> if py_eq name n then Inr (Some i) else find_named bs name (Suc i))"

text \<open>
  The same loop on whatever \<open>base\<close> is: a dictionary or a string is iterated over its
  keys or characters, which are strings without \<open>get\<close>; anything else but a list is
  not iterable.
\<close>

definition enumerate_named :: "pyval \<Rightarrow> pyval \<Rightarrow> exn + nat option" where
  "enumerate_named base name =
     (case base of
        PList bs \<Rightarrow> find_named bs name 0
      | PDict d \<Rightarrow> if d = [] then Inr None else Inl AttributeError
      | PStr s \<Rightarrow> if s = [] then Inr None else Inl AttributeError
      | _ \<Rightarrow> Inl TypeError)"

text \<open>\<open>base.append(item)\<close>: only a list has \<open>append\<close>.\<close>

definition py_append :: "pyval \<Rightarrow> pyval \<Rightarrow> exn + pyval" where
  "py_append base item =
     (case base of PList bs \<Rightarrow> Inr (PList (bs @ [item])) | _ \<Rightarrow> Inl AttributeError)"

text \<open>
  \<open>extend(base, extension)\<close>. The function changes \<open>base\<close> in place and returns it; the
  model returns the new value. \<open>extend_list\<close> is the loop over the items of a list
  extension, \<open>extend_dict\<close> the loop over the pairs of a dictionary extension (\<open>base\<close>
  must then have \<open>get\<close>, which only a dictionary has).
\<close>

fun extend :: "pyval \<Rightarrow> pyval \<Rightarrow> exn + pyval"
  and extend_list :: "pyval \<Rightarrow> pyval list \<Rightarrow> exn + pyval"
  and extend_dict :: "pyval \<Rightarrow> (string \<times> pyval) list \<Rightarrow> exn + pyval" where
  "extend base (PList ext) = extend_list base ext"
| "extend base (PDict ext) = extend_dict base ext"
| "extend base PNone = Inr PNone"
| "extend base (PBool b) = Inr (PBool b)"
| "extend base (PInt i) = Inr (PInt i)"
| "extend base (PFloat x) = Inr (PFloat x)"
| "extend base (PStr s) = Inr (PStr s)"
| "extend_list base [] = Inr base"
| "extend_list base (item # rest) =
     (case item_name item of
        Some name \<Rightarrow>
          (case enumerate_named base name of
             Inl e \<Rightarrow> Inl e
           | Inr (Some i) \<Rightarrow>
               (case base of
                  PList bs \<Rightarrow>
                    (case extend (bs ! i) item of
                       Inl e \<Rightarrow> Inl e
                     | Inr merged \<Rightarrow> extend_list (PList (bs[i := merged])) rest)
                | _ \<Rightarrow> Inl TypeError)
           | Inr None \<Rightarrow>
               (case py_append base item of
                  Inl e \<Rightarrow> Inl e
                | Inr base' \<Rightarrow> extend_list base' rest))
      | None \<Rightarrow>
          (case py_append base item of
             Inl e \<Rightarrow> Inl e
           | Inr base' \<Rightarrow> extend_list base' rest))"
| "extend_dict base [] = Inr base"
| "extend_dict base (kv # rest) =
     (case base of
        PDict d \<Rightarrow>
          (case extend (case dict_get d (fst kv) of Some b \<Rightarrow> b | None \<Rightarrow> PDict []) (snd kv) of
             Inl e \<Rightarrow> Inl e
           | Inr r \<Rightarrow> extend_dict (PDict (dict_set d (fst kv) r)) rest)
      | _ \<Rightarrow> Inl AttributeError)"






text \<open>A system for the examples: \<open>A\<close> refers to \<open>B\<close>, \<open>L\<close> to itself.\<close>

definition demo_system :: system where
  "demo_system =
     \<lparr>environ = [''A'' \<mapsto> ''${B}'', ''B'' \<mapsto> ''x'', ''L'' \<mapsto> ''x$L'', ''HOME'' \<mapsto> ''/home/u/''],
      pw_dir_uid = None, pw_dir_name = Map.empty\<rparr>"

section \<open>Theorems\<close>

subsection \<open>Routing\<close>

text \<open>
  C2. A pair (input name, task name) is accepted exactly when no check of the chain
  rejects it: the processor is enabled (or enablement is ignored); if
  \<open>include_inputs\<close> is set, some pattern matches the input name; if \<open>exclude_inputs\<close> is
  set, no pattern matches it; likewise \<open>include_tasks\<close> and \<open>exclude_tasks\<close> for the
  task name. The checks run in this order and the first that rejects decides, so each
  rejection is stated with the earlier checks passed. With \<open>include_tasks = ["foo*"]\<close> and
  \<open>exclude_tasks = ["foobar"]\<close> the task \<open>foobar_extra\<close> is accepted and \<open>foobar\<close> is
  rejected, whatever the input name.
\<close>

theorem accepts_from_order:
  "(accepts_from self i t ign \<longleftrightarrow>
      (enabled self \<or> ign) \<and>
      (\<forall>fi. include_inputs self = Some fi \<longrightarrow> (\<exists>p \<in> set fi. fnmatch i p)) \<and>
      (\<forall>fi. exclude_inputs self = Some fi \<longrightarrow> \<not> (\<exists>p \<in> set fi. fnmatch i p)) \<and>
      (\<forall>fi. include_tasks self = Some fi \<longrightarrow> (\<exists>p \<in> set fi. fnmatch t p)) \<and>
      (\<forall>fi. exclude_tasks self = Some fi \<longrightarrow> \<not> (\<exists>p \<in> set fi. fnmatch t p))) \<and>
   accepts_from foo_processor i ''foobar_extra'' False \<and>
   \<not> accepts_from foo_processor i ''foobar'' False"
proof (intro conjI)
  show "accepts_from self i t ign \<longleftrightarrow>
      (enabled self \<or> ign) \<and>
      (\<forall>fi. include_inputs self = Some fi \<longrightarrow> (\<exists>p \<in> set fi. fnmatch i p)) \<and>
      (\<forall>fi. exclude_inputs self = Some fi \<longrightarrow> \<not> (\<exists>p \<in> set fi. fnmatch i p)) \<and>
      (\<forall>fi. include_tasks self = Some fi \<longrightarrow> (\<exists>p \<in> set fi. fnmatch t p)) \<and>
      (\<forall>fi. exclude_tasks self = Some fi \<longrightarrow> \<not> (\<exists>p \<in> set fi. fnmatch t p))"
    by (cases "include_inputs self"; cases "exclude_inputs self";
        cases "include_tasks self"; cases "exclude_tasks self")
       (simp_all add: accepts_from_def any_match_def list_ex_iff)
  show "accepts_from foo_processor i ''foobar_extra'' False"
    by (simp add: accepts_from_def foo_processor_def any_match_def fnmatch_def)
  show "\<not> accepts_from foo_processor i ''foobar'' False"
    by (simp add: accepts_from_def foo_processor_def any_match_def fnmatch_def)
qed

theorem accepts_from_order_witness:
  "accepts_from \<lparr>enabled = True, include_inputs = Some [''db*''], exclude_inputs = None,
      include_tasks = None, exclude_tasks = Some [''foobar'']\<rparr> ''db_main'' ''foo'' False \<and>
   \<not> accepts_from \<lparr>enabled = True, include_inputs = Some [''db*''], exclude_inputs = None,
      include_tasks = None, exclude_tasks = Some [''foobar'']\<rparr> ''db_main'' ''foobar'' False \<and>
   \<not> accepts_from \<lparr>enabled = False, include_inputs = None, exclude_inputs = None,
      include_tasks = None, exclude_tasks = None\<rparr> ''db_main'' ''foo'' False"
  using accepts_from_order [of "\<lparr>enabled = True, include_inputs = Some [''db*''], exclude_inputs = None,
      include_tasks = None, exclude_tasks = Some [''foobar'']\<rparr>" "''db_main''" "''foo''" False]
    accepts_from_order [of "\<lparr>enabled = True, include_inputs = Some [''db*''], exclude_inputs = None,
      include_tasks = None, exclude_tasks = Some [''foobar'']\<rparr>" "''db_main''" "''foobar''" False]
    accepts_from_order [of "\<lparr>enabled = False, include_inputs = None, exclude_inputs = None,
      include_tasks = None, exclude_tasks = None\<rparr>" "''db_main''" "''foo''" False]
  by (simp add: fnmatch_def)

subsection \<open>Environment-variable expansion\<close>

lemma depth_str: "EnvironmentVar_depth sys schema v d = EnvironmentVar_depth sys schema (LStr (py_str v)) d"
  by (subst EnvironmentVar_depth.simps, subst (2) EnvironmentVar_depth.simps) simp

lemma depth_fixed:
  "int k \<le> d \<Longrightarrow>
   (\<forall>j<k. (expand_pass sys ^^ Suc j) s \<noteq> (expand_pass sys ^^ j) s) \<Longrightarrow>
   (expand_pass sys ^^ Suc k) s = (expand_pass sys ^^ k) s \<Longrightarrow>
   EnvironmentVar_depth sys schema (LStr s) d = schema ((expand_pass sys ^^ k) s)"
proof (induction k arbitrary: s d)
  case 0
  then show ?case by (subst EnvironmentVar_depth.simps) simp
next
  case (Suc k)
  from Suc.prems(2) have ne: "expand_pass sys s \<noteq> s" by force
  have step: "\<forall>j<k. (expand_pass sys ^^ Suc j) (expand_pass sys s) \<noteq> (expand_pass sys ^^ j) (expand_pass sys s)"
  proof (intro allI impI)
    fix j assume "j < k"
    then have "Suc j < Suc k" by simp
    with Suc.prems(2) have "(expand_pass sys ^^ Suc (Suc j)) s \<noteq> (expand_pass sys ^^ Suc j) s" by blast
    then show "(expand_pass sys ^^ Suc j) (expand_pass sys s) \<noteq> (expand_pass sys ^^ j) (expand_pass sys s)"
      by (simp add: funpow_swap1)
  qed
  have fixed: "(expand_pass sys ^^ Suc k) (expand_pass sys s) = (expand_pass sys ^^ k) (expand_pass sys s)"
    using Suc.prems(3) by (simp add: funpow_swap1)
  have d: "int k \<le> d - 1" using Suc.prems(1) by simp
  have "EnvironmentVar_depth sys schema (LStr s) d = EnvironmentVar_depth sys schema (LStr (expand_pass sys s)) (d - 1)"
    using ne Suc.prems(1) by (subst EnvironmentVar_depth.simps) (simp add: Let_def)
  also have "\<dots> = schema ((expand_pass sys ^^ k) (expand_pass sys s))"
    by (rule Suc.IH [OF d step fixed])
  finally show ?case by (simp add: funpow_swap1)
qed


lemma expandvars_no_dollar: "CHR ''$'' \<notin> set pre \<Longrightarrow> expandvars env (pre @ s) = pre @ expandvars env s"
  by (induction pre) auto



lemma var_ref_plain:
  "name \<noteq> [] \<Longrightarrow> \<forall>c \<in> set name. is_word c \<Longrightarrow> post = [] \<or> \<not> is_word (hd post) \<Longrightarrow>
   var_ref (name @ post) = Some (name, length name)"
proof -
  assume ne: "name \<noteq> []" and w: "\<forall>c \<in> set name. is_word c" and p: "post = [] \<or> \<not> is_word (hd post)"
  from p have "takeWhile is_word post = []" by (cases post) auto
  with w have "takeWhile is_word (name @ post) = name"
    by (induction name) auto
  moreover from ne w obtain c r where "name = c # r" "is_word c" by (cases name) auto
  ultimately show ?thesis by (simp add: var_ref_def)
qed

lemma expandvars_plain:
  "CHR ''$'' \<notin> set pre \<Longrightarrow> name \<noteq> [] \<Longrightarrow> \<forall>c \<in> set name. is_word c \<Longrightarrow> post = [] \<or> \<not> is_word (hd post) \<Longrightarrow>
   env name = Some val \<Longrightarrow>
   expandvars env (pre @ ''$'' @ name @ post) = pre @ val @ expandvars env post"
  using var_ref_plain [of name post]
  by (simp add: expandvars_no_dollar)


lemma expandvars_id: "CHR ''$'' \<notin> set s \<Longrightarrow> expandvars env s = s"
  using expandvars_no_dollar [of s env "[]"] by simp

lemma expanduser_id: "s = [] \<or> hd s \<noteq> CHR ''~'' \<Longrightarrow> expanduser sys s = s"
  by (auto simp: expanduser_def)

lemma expand_pass_id:
  "CHR ''$'' \<notin> set s \<Longrightarrow> s = [] \<or> hd s \<noteq> CHR ''~'' \<Longrightarrow> expand_pass sys s = s"
  by (simp add: expand_pass_def expandvars_id expanduser_id)







lemma rstrip_hd: "rstrip c s \<noteq> [] \<Longrightarrow> hd (rstrip c s) = hd s"
proof -
  assume a: "rstrip c s \<noteq> []"
  have "s = rstrip c s @ rev (takeWhile (\<lambda>x. x = c) (rev s))"
    unfolding rstrip_def by (metis rev_append rev_rev_ident takeWhile_dropWhile_id)
  with a show ?thesis by (metis hd_append2)
qed

lemma rstrip_set: "set (rstrip c s) \<subseteq> set s"
  unfolding rstrip_def by (metis set_dropWhileD set_rev subsetI)

lemma expanduser_tilde:
  "environ sys ''HOME'' = Some home \<Longrightarrow> rest = [] \<or> hd rest = CHR ''/'' \<Longrightarrow>
   rstrip (CHR ''/'') home @ rest \<noteq> [] \<Longrightarrow>
   expanduser sys (CHR ''~'' # rest) = rstrip (CHR ''/'') home @ rest"
  by (cases rest) (auto simp: expanduser_def find_from_def Let_def)

lemma one_pass:
  "expand_pass sys s \<noteq> s \<Longrightarrow> expand_pass sys (expand_pass sys s) = expand_pass sys s \<Longrightarrow>
   EnvironmentVar sys schema (LStr s) = schema (expand_pass sys s)"
  unfolding EnvironmentVar_def
  using depth_fixed [of 1 16 sys s schema] by simp

text \<open>
  C9. The validator expands more than \<open>${NAME}\<close>: \<open>$NAME\<close> without braces is replaced
  by the variable's value, a leading \<open>~\<close> by the home directory (\<open>HOME\<close>, trailing
  slashes stripped), because each pass is \<open>expanduser\<close> after \<open>expandvars\<close>; and a
  value that is not a string is expanded as its \<open>str\<close> form.
\<close>

theorem EnvironmentVar_dollar_tilde_str:
  "(name \<noteq> [] \<and> (\<forall>c \<in> set name. is_word c) \<and> environ sys name = Some val \<and>
      CHR ''$'' \<notin> set val \<and> (val = [] \<or> hd val \<noteq> CHR ''~'')
      \<longrightarrow> EnvironmentVar sys schema (LStr (CHR ''$'' # name)) = schema val) \<and>
   (CHR ''$'' \<notin> set pre \<and> name \<noteq> [] \<and> (\<forall>c \<in> set name. is_word c) \<and>
      (post = [] \<or> \<not> is_word (hd post)) \<and> environ sys name = Some val
      \<longrightarrow> expandvars (environ sys) (pre @ ''$'' @ name @ post) =
            pre @ val @ expandvars (environ sys) post) \<and>
   (environ sys ''HOME'' = Some home \<and> CHR ''$'' \<notin> set home \<and> hd home \<noteq> CHR ''~'' \<and>
      rstrip (CHR ''/'') home \<noteq> []
      \<longrightarrow> EnvironmentVar sys schema (LStr ''~'') = schema (rstrip (CHR ''/'') home)) \<and>
   (environ sys ''HOME'' = Some home \<and> (rest = [] \<or> hd rest = CHR ''/'') \<and>
      rstrip (CHR ''/'') home @ rest \<noteq> []
      \<longrightarrow> expanduser sys (CHR ''~'' # rest) = rstrip (CHR ''/'') home @ rest) \<and>
   expand_pass sys s = expanduser sys (expandvars (environ sys) s) \<and>
   EnvironmentVar sys schema v = EnvironmentVar sys schema (LStr (py_str v))"
proof (intro conjI impI)
  assume a: "name \<noteq> [] \<and> (\<forall>c \<in> set name. is_word c) \<and> environ sys name = Some val \<and>
      CHR ''$'' \<notin> set val \<and> (val = [] \<or> hd val \<noteq> CHR ''~'')"
  then have "expandvars (environ sys) ([] @ ''$'' @ name @ []) = [] @ val @ expandvars (environ sys) []"
    by (intro expandvars_plain) simp_all
  with a have 1: "expand_pass sys (CHR ''$'' # name) = val"
    by (simp add: expand_pass_def expanduser_id)
  from a have 2: "expand_pass sys val = val" by (simp add: expand_pass_id)
  from a have 3: "val \<noteq> CHR ''$'' # name" by auto
  show "EnvironmentVar sys schema (LStr (CHR ''$'' # name)) = schema val"
    using one_pass [of sys "CHR ''$'' # name" schema] 1 2 3 by simp
next
  assume "CHR ''$'' \<notin> set pre \<and> name \<noteq> [] \<and> (\<forall>c \<in> set name. is_word c) \<and>
      (post = [] \<or> \<not> is_word (hd post)) \<and> environ sys name = Some val"
  then show "expandvars (environ sys) (pre @ ''$'' @ name @ post) =
            pre @ val @ expandvars (environ sys) post"
    by (intro expandvars_plain) simp_all
next
  assume a: "environ sys ''HOME'' = Some home \<and> CHR ''$'' \<notin> set home \<and> hd home \<noteq> CHR ''~'' \<and>
      rstrip (CHR ''/'') home \<noteq> []"
  let ?h = "rstrip (CHR ''/'') home"
  from a have "expanduser sys (CHR ''~'' # []) = ?h @ []"
    by (intro expanduser_tilde) simp_all
  then have 1: "expand_pass sys ''~'' = ?h"
    by (simp add: expand_pass_def)
  from a have "hd ?h \<noteq> CHR ''~''" by (simp add: rstrip_hd)
  moreover from a rstrip_set [of "CHR ''/''" home] have "CHR ''$'' \<notin> set ?h" by blast
  ultimately have 2: "expand_pass sys ?h = ?h" by (simp add: expand_pass_id)
  from a \<open>hd ?h \<noteq> CHR ''~''\<close> have 3: "?h \<noteq> ''~''" by auto
  show "EnvironmentVar sys schema (LStr ''~'') = schema ?h"
    using one_pass [of sys "''~''" schema] 1 2 3 by simp
next
  assume "environ sys ''HOME'' = Some home \<and> (rest = [] \<or> hd rest = CHR ''/'') \<and>
      rstrip (CHR ''/'') home @ rest \<noteq> []"
  then show "expanduser sys (CHR ''~'' # rest) = rstrip (CHR ''/'') home @ rest"
    by (intro expanduser_tilde) simp_all
next
  show "expand_pass sys s = expanduser sys (expandvars (environ sys) s)"
    by (simp add: expand_pass_def)
next
  show "EnvironmentVar sys schema v = EnvironmentVar sys schema (LStr (py_str v))"
    unfolding EnvironmentVar_def by (rule depth_str)
qed

theorem EnvironmentVar_dollar_tilde_str_witness:
  "EnvironmentVar demo_system str_schema (LStr ''$B'') = Inr ''x'' \<and>
   expandvars (environ demo_system) ''a$B-c'' = ''ax-c'' \<and>
   EnvironmentVar demo_system str_schema (LStr ''~'') = Inr ''/home/u'' \<and>
   expanduser demo_system ''~/etc'' = ''/home/u/etc'' \<and>
   EnvironmentVar demo_system str_schema (LInt 42) = Inr ''42''"
proof -
  note inst = EnvironmentVar_dollar_tilde_str [of "''B''" demo_system "''x''" str_schema "''a''"
      "''-c''" "''/home/u/''" "''/etc''" "''42''" "LInt 42"]
  have r: "rstrip (CHR ''/'') ''/home/u/'' = ''/home/u''" by (simp add: rstrip_def)
  have h1: "''B'' \<noteq> [] \<and> (\<forall>c \<in> set ''B''. is_word c) \<and> environ demo_system ''B'' = Some ''x'' \<and>
      CHR ''$'' \<notin> set ''x'' \<and> (''x'' = [] \<or> hd ''x'' \<noteq> CHR ''~'')"
    by (simp add: is_word_def demo_system_def)
  have h2: "CHR ''$'' \<notin> set ''a'' \<and> ''B'' \<noteq> [] \<and> (\<forall>c \<in> set ''B''. is_word c) \<and>
      (''-c'' = [] \<or> \<not> is_word (hd ''-c'')) \<and> environ demo_system ''B'' = Some ''x''"
    by (simp add: is_word_def demo_system_def)
  have h3: "environ demo_system ''HOME'' = Some ''/home/u/'' \<and> CHR ''$'' \<notin> set ''/home/u/'' \<and>
      hd ''/home/u/'' \<noteq> CHR ''~'' \<and> rstrip (CHR ''/'') ''/home/u/'' \<noteq> []"
    by (simp add: demo_system_def r)
  have h4: "environ demo_system ''HOME'' = Some ''/home/u/'' \<and> (''/etc'' = [] \<or> hd ''/etc'' = CHR ''/'') \<and>
      rstrip (CHR ''/'') ''/home/u/'' @ ''/etc'' \<noteq> []"
    by (simp add: demo_system_def r)
  from inst h1 have a: "EnvironmentVar demo_system str_schema (LStr ''$B'') = Inr ''x''"
    by (simp add: str_schema_def)
  from inst h2 have "expandvars (environ demo_system) (''a'' @ ''$'' @ ''B'' @ ''-c'') =
      ''a'' @ ''x'' @ expandvars (environ demo_system) ''-c''" by blast
  then have b: "expandvars (environ demo_system) ''a$B-c'' = ''ax-c''" by simp
  from inst h3 have "EnvironmentVar demo_system str_schema (LStr ''~'') = str_schema (rstrip (CHR ''/'') ''/home/u/'')"
    by blast
  then have c: "EnvironmentVar demo_system str_schema (LStr ''~'') = Inr ''/home/u''"
    by (simp add: r str_schema_def)
  from inst h4 have "expanduser demo_system (CHR ''~'' # ''/etc'') = rstrip (CHR ''/'') ''/home/u/'' @ ''/etc''"
    by blast
  then have d: "expanduser demo_system ''~/etc'' = ''/home/u/etc''" by (simp add: r)
  have s42: "str_int 42 = ''42''"
    by code_simp
  have "expand_pass demo_system ''42'' = ''42''" by (simp add: expand_pass_id)
  then have "EnvironmentVar demo_system str_schema (LStr ''42'') = Inr ''42''"
    unfolding EnvironmentVar_def
    by (subst EnvironmentVar_depth.simps) (simp add: str_schema_def)
  with inst have e: "EnvironmentVar demo_system str_schema (LInt 42) = Inr ''42''"
    by (simp add: s42)
  from a b c d e show ?thesis by simp
qed

subsection \<open>Duration parsing\<close>









lemma minus_not_digit: "\<not> is_digit (CHR ''-'')" and dot_not_digit: "\<not> is_digit (CHR ''.'')"
  and colon_not_digit: "\<not> is_digit (CHR '':'')"
  by (simp_all add: is_digit_def)



















lemma re_search_minus: "re_search (CHR ''-'' # s) = re_search s"
  by (simp add: minus_not_digit)


















subsection \<open>Template merge\<close>












subsection \<open>Metric extraction\<close>






























text \<open>
  A field that holds a list is flattened to keys with indices, and popping such a key
  raises: the extraction of the record does not complete.
\<close>

lemma extract_metrics_list_field_raises:
  "extract_metrics [(''v'', PList [PInt 1])] ''.'' (Some [''v*'']) = Inl TypeError"
  by code_simp







subsection \<open>Frames\<close>

lemma apply_op_unfrozen:
  "\<not> frame_frozen (cells st a) \<Longrightarrow>
   apply_op st a op = Inr (st\<lparr>cells := (cells st)(a := mutate op (cells st a))\<rparr>)"
  by (simp add: apply_op_def)

lemma mutate_frozen: "frame_frozen (mutate op f) = frame_frozen f"
  by (cases op) simp_all

lemma apply_op_frame:
  "apply_op st a op = Inr st' \<Longrightarrow>
   next_free st' = next_free st \<and> (\<forall>b. b \<noteq> a \<longrightarrow> cells st' b = cells st b) \<and>
   (\<forall>b. frame_frozen (cells st' b) = frame_frozen (cells st b))"
  by (auto simp: apply_op_def mutate_frozen split: if_splits)

lemma apply_ops_frame:
  "apply_ops st a ops = Inr st' \<Longrightarrow>
   next_free st' = next_free st \<and> (\<forall>b. b \<noteq> a \<longrightarrow> cells st' b = cells st b) \<and>
   (\<forall>b. frame_frozen (cells st' b) = frame_frozen (cells st b))"
proof (induction ops arbitrary: st)
  case Nil
  then show ?case by simp
next
  case (Cons op ops)
  from Cons.prems obtain mid where 1: "apply_op st a op = Inr mid" and 2: "apply_ops mid a ops = Inr st'"
    by (auto split: sum.splits)
  from apply_op_frame [OF 1] Cons.IH [OF 2] show ?case by simp
qed

lemma apply_ops_unfrozen:
  "\<not> frame_frozen (cells st a) \<Longrightarrow>
   \<exists>st'. apply_ops st a ops = Inr st' \<and> cells st' a = fold mutate ops (cells st a)"
proof (induction ops arbitrary: st)
  case Nil
  then show ?case by simp
next
  case (Cons op ops)
  let ?mid = "st\<lparr>cells := (cells st)(a := mutate op (cells st a))\<rparr>"
  from Cons.prems have 1: "apply_op st a op = Inr ?mid" by (rule apply_op_unfrozen)
  from Cons.prems have "\<not> frame_frozen (cells ?mid a)" by (simp add: mutate_frozen)
  from Cons.IH [OF this] 1 show ?case by simp
qed

lemma apply_ops_frozen: "frame_frozen (cells st a) \<Longrightarrow> ops \<noteq> [] \<Longrightarrow> apply_ops st a ops = Inl TypeError"
  by (cases ops) (simp_all add: apply_op_def)

lemma modify_frame:
  "modify modifiers st a = Inr st' \<Longrightarrow>
   next_free st' = next_free st \<and> (\<forall>b. b \<noteq> a \<longrightarrow> cells st' b = cells st b) \<and>
   (\<forall>b. frame_frozen (cells st' b) = frame_frozen (cells st b))"
  unfolding modify_def Let_def by (rule apply_op_frame)

lemma frame_copy_frame:
  "frame_copy st a = (c, st1) \<Longrightarrow>
   c = next_free st \<and> next_free st1 = Suc (next_free st) \<and>
   (\<forall>b. b \<noteq> c \<longrightarrow> cells st1 b = cells st b) \<and>
   cells st1 c = (cells st a)\<lparr>frame_frozen := False\<rparr>"
  by (auto simp: frame_copy_def)

lemma run_outputs_frame:
  "run_outputs modls lm st a = (lm', st', exc) \<Longrightarrow>
   next_free st \<le> next_free st' \<and> (\<forall>b < next_free st. cells st' b = cells st b)"
proof (induction modls arbitrary: lm st)
  case Nil
  then show ?case by simp
next
  case (Cons modl modls)
  obtain c st1 where cp: "frame_copy st a = (c, st1)" by (cases "frame_copy st a")
  note f1 = frame_copy_frame [OF cp]
  show ?case
  proof (cases "modify (out_modifiers modl) st1 c")
    case (Inl e)
    with Cons.prems cp f1 show ?thesis by (auto simp: Let_def)
  next
    case (Inr st2)
    note f2 = modify_frame [OF Inr]
    show ?thesis
    proof (cases "apply_ops st2 c (fst (out_call modl (cells st2 c)))")
      case (Inl e)
      with Cons.prems cp Inr f1 f2 show ?thesis by (auto simp: Let_def)
    next
      case (Inr st3)
      note f3 = apply_ops_frame [OF Inr]
      have keep: "next_free st \<le> next_free st3 \<and> (\<forall>b < next_free st. cells st3 b = cells st b)"
        using f1 f2 f3 by auto
      show ?thesis
      proof (cases "snd (out_call modl (cells st2 c))")
        case (Some e)
        with Cons.prems cp \<open>modify (out_modifiers modl) st1 c = Inr st2\<close> Inr keep
        show ?thesis by (auto simp: Let_def)
      next
        case None
        with Cons.prems cp \<open>modify (out_modifiers modl) st1 c = Inr st2\<close> Inr
        have "run_outputs modls (out_name modl) st3 a = (lm', st', exc)" by (simp add: Let_def)
        from Cons.IH [OF this] keep show ?thesis by auto
      qed
    qed
  qed
qed


lemma run_outputs_append:
  "run_outputs (pre @ post) lm st a =
     (case run_outputs pre lm st a of
        (lm1, st1, Some e) \<Rightarrow> (lm1, st1, Some e)
      | (lm1, st1, None) \<Rightarrow> run_outputs post lm1 st1 a)"
proof (induction pre arbitrary: lm st)
  case Nil
  show ?case by simp
next
  case (Cons modl pre)
  show ?case
    by (simp add: Let_def Cons.IH split: sum.splits option.splits prod.splits)
qed

text \<open>
  C4. On a frame that is not frozen a mutation (append, whole-range replace) succeeds
  and the frame holds the result. After \<open>freeze\<close> every mutation of the frame fails with
  an exception, and nothing unfreezes it: whatever mutations other frames undergo, it
  stays frozen. A copy taken after freezing is another frame, not frozen, with the same
  items; every sequence of mutations succeeds on it and changes no other frame, the
  frozen original included. In the loop over the outputs each output works on a copy
  of its own: every frame that existed before the loop is unchanged after it, and the
  copy of an output that has finished is not changed by the outputs after it.
\<close>

theorem frame_freeze_and_copy:
  "(\<not> frame_frozen (cells st a) \<longrightarrow>
      (\<exists>st'. apply_op st a op = Inr st' \<and> cells st' a = mutate op (cells st a))) \<and>
   apply_op (freeze st a) a op = Inl TypeError \<and>
   (apply_ops (freeze st a) b ops = Inr st' \<longrightarrow> frame_frozen (cells st' a)) \<and>
   (a < next_free st \<longrightarrow>
      fst (frame_copy (freeze st a) a) \<noteq> a \<and>
      \<not> frame_frozen (cells (snd (frame_copy (freeze st a) a)) (fst (frame_copy (freeze st a) a))) \<and>
      frame_items (cells (snd (frame_copy (freeze st a) a)) (fst (frame_copy (freeze st a) a))) =
        frame_items (cells st a) \<and>
      (\<exists>st2. apply_ops (snd (frame_copy (freeze st a) a)) (fst (frame_copy (freeze st a) a)) ops = Inr st2 \<and>
         cells st2 (fst (frame_copy (freeze st a) a)) =
           fold mutate ops (cells (snd (frame_copy (freeze st a) a)) (fst (frame_copy (freeze st a) a))) \<and>
         (\<forall>c. c \<noteq> fst (frame_copy (freeze st a) a) \<longrightarrow> cells st2 c = cells (freeze st a) c))) \<and>
   (run_outputs modls lm st a = (lm', st'', exc) \<longrightarrow>
      (\<forall>c < next_free st. cells st'' c = cells st c)) \<and>
   (run_outputs pre lm st a = (lm1, st1, None) \<and>
    run_outputs (pre @ post) lm st a = (lm', st'', exc) \<longrightarrow>
      (\<forall>c < next_free st1. cells st'' c = cells st1 c))"
proof (intro conjI impI)
  assume "\<not> frame_frozen (cells st a)"
  then show "\<exists>st'. apply_op st a op = Inr st' \<and> cells st' a = mutate op (cells st a)"
    by (simp add: apply_op_def)
next
  show "apply_op (freeze st a) a op = Inl TypeError"
    by (simp add: apply_op_def freeze_def)
next
  assume "apply_ops (freeze st a) b ops = Inr st'"
  from apply_ops_frame [OF this] show "frame_frozen (cells st' a)"
    by (simp add: freeze_def)
next
  assume a: "a < next_free st"
  let ?fz = "freeze st a"
  obtain c st1 where cp: "frame_copy ?fz a = (c, st1)" by (cases "frame_copy ?fz a")
  note f = frame_copy_frame [OF cp]
  have nf: "next_free ?fz = next_free st" by (simp add: freeze_def)
  from f nf a have ca: "c \<noteq> a" by simp
  from f have cell: "cells st1 c = (cells ?fz a)\<lparr>frame_frozen := False\<rparr>" by blast
  have unfrozen: "\<not> frame_frozen (cells st1 c)" by (simp add: cell)
  have items: "frame_items (cells st1 c) = frame_items (cells st a)"
    by (simp add: cell freeze_def)
  from apply_ops_unfrozen [OF unfrozen, of ops] obtain st2 where
    ops: "apply_ops st1 c ops = Inr st2" "cells st2 c = fold mutate ops (cells st1 c)" by blast
  from apply_ops_frame [OF ops(1)] f
  have others: "\<forall>b. b \<noteq> c \<longrightarrow> cells st2 b = cells ?fz b" by simp
  show "fst (frame_copy ?fz a) \<noteq> a" using ca by (simp add: cp)
  show "\<not> frame_frozen (cells (snd (frame_copy ?fz a)) (fst (frame_copy ?fz a)))"
    using unfrozen by (simp add: cp)
  show "frame_items (cells (snd (frame_copy ?fz a)) (fst (frame_copy ?fz a))) = frame_items (cells st a)"
    using items by (simp add: cp)
  show "\<exists>st2. apply_ops (snd (frame_copy ?fz a)) (fst (frame_copy ?fz a)) ops = Inr st2 \<and>
         cells st2 (fst (frame_copy ?fz a)) =
           fold mutate ops (cells (snd (frame_copy ?fz a)) (fst (frame_copy ?fz a))) \<and>
         (\<forall>c. c \<noteq> fst (frame_copy ?fz a) \<longrightarrow> cells st2 c = cells ?fz c)"
    using ops others by (simp add: cp)
next
  assume "run_outputs modls lm st a = (lm', st'', exc)"
  from run_outputs_frame [OF this] show "\<forall>c < next_free st. cells st'' c = cells st c" by simp
next
  assume both: "run_outputs pre lm st a = (lm1, st1, None) \<and>
    run_outputs (pre @ post) lm st a = (lm', st'', exc)"
  then have 1: "run_outputs pre lm st a = (lm1, st1, None)"
    and 2: "run_outputs (pre @ post) lm st a = (lm', st'', exc)" by simp_all
  from 2 have "run_outputs post lm1 st1 a = (lm', st'', exc)"
    unfolding run_outputs_append 1 by simp
  from run_outputs_frame [OF this] show "\<forall>c < next_free st1. cells st'' c = cells st1 c" by simp
qed


theorem frame_freeze_and_copy_witness:
  "(\<exists>st'. apply_op one_frame 0 (Append 5) = Inr st' \<and> frame_items (cells st' 0) = [1, 5]) \<and>
   apply_op (freeze one_frame 0) 0 (Append 5) = Inl TypeError \<and>
   (\<exists>st'. apply_ops (freeze one_frame 0) 1 [Append 5] = Inr st' \<and> frame_frozen (cells st' 0)) \<and>
   fst (frame_copy (freeze one_frame 0) 0) = 1 \<and>
   (\<exists>st2. apply_ops (snd (frame_copy (freeze one_frame 0) 0)) 1 [Append 7, SetTimestamp 3] = Inr st2 \<and>
      frame_items (cells st2 1) = [1, 7] \<and> frame_items (cells st2 0) = [1] \<and>
      frame_frozen (cells st2 0)) \<and>
   (\<exists>lm st'' exc.
      run_outputs [appending_sink, appending_sink] ''source'' (freeze one_frame 0) 0 = (lm, st'', exc) \<and>
      cells st'' 0 = cells (freeze one_frame 0) 0) \<and>
   (\<exists>lm1 st1 lm st''.
      run_outputs [appending_sink] ''source'' (freeze one_frame 0) 0 = (lm1, st1, None) \<and>
      run_outputs ([appending_sink] @ [appending_sink]) ''source'' (freeze one_frame 0) 0 = (lm, st'', None) \<and>
      frame_items (cells st1 1) = [1, 7] \<and> cells st'' 1 = cells st1 1)"
proof -
  let ?fz = "freeze one_frame 0"
  have uf: "\<not> frame_frozen (cells one_frame 0)" by (simp add: one_frame_def)
  have uf1: "\<not> frame_frozen (cells ?fz 1)" by (simp add: one_frame_def freeze_def)
  from apply_ops_unfrozen [OF uf1, of "[Append 5]"] obtain sta where
    sta: "apply_ops ?fz 1 [Append 5] = Inr sta" by blast
  have nf: "(0::nat) < next_free one_frame" by (simp add: one_frame_def)
  obtain lm1 st1 exc1 where r1: "run_outputs [appending_sink] ''source'' ?fz 0 = (lm1, st1, exc1)"
    by (cases "run_outputs [appending_sink] ''source'' ?fz 0")
  have cp: "frame_copy ?fz 0 = (1, snd (frame_copy ?fz 0))"
    by (simp add: frame_copy_def freeze_def one_frame_def)
  let ?st1 = "snd (frame_copy ?fz 0)"
  have md: "modify \<lparr>time_modulus = 0, time_offset = 0\<rparr> ?st1 1 =
      Inr (?st1\<lparr>cells := (cells ?st1)(1 := mutate (SetTimestamp (creation_timestamp (cells ?st1 1))) (cells ?st1 1))\<rparr>)"
    by (simp add: modify_def apply_op_def frame_copy_def freeze_def one_frame_def)
  have exc1: "exc1 = None" and items1: "frame_items (cells st1 1) = [1, 7]"
    using r1 cp md
    by (auto simp: Let_def appending_sink_def apply_op_def frame_copy_def freeze_def one_frame_def)
  obtain lm st'' exc where r2:
    "run_outputs ([appending_sink] @ [appending_sink]) ''source'' ?fz 0 = (lm, st'', exc)"
    by (cases "run_outputs ([appending_sink] @ [appending_sink]) ''source'' ?fz 0")
  have n1: "next_free st1 = 2"
    using r1 cp md
    by (auto simp: Let_def appending_sink_def apply_op_def frame_copy_def freeze_def one_frame_def)
  have uf2: "\<not> frame_frozen (cells st1 2)"
    using r1 cp md
    by (auto simp: Let_def appending_sink_def apply_op_def frame_copy_def freeze_def one_frame_def)
  have exc: "exc = None"
  proof -
    from r2 r1 exc1 have "run_outputs [appending_sink] lm1 st1 0 = (lm, st'', exc)"
      by (simp only: run_outputs_append) simp
    then show ?thesis
      by (auto simp: Let_def appending_sink_def apply_op_def modify_def frame_copy_def
          split: if_splits)
  qed
  note inst = frame_freeze_and_copy [of one_frame 0 "Append 5" 1 "[Append 5]" sta
      "[appending_sink, appending_sink]" "''source''" lm st'' exc "[appending_sink]" lm1 st1
      "[appending_sink]"]
  note inst2 = frame_freeze_and_copy [of one_frame 0 "Append 5" 1 "[Append 7, SetTimestamp 3]" sta
      "[appending_sink, appending_sink]" "''source''" lm st'' exc "[appending_sink]" lm1 st1
      "[appending_sink]"]
  from inst uf obtain st' where a0: "apply_op one_frame 0 (Append 5) = Inr st'"
    "cells st' 0 = mutate (Append 5) (cells one_frame 0)" by blast
  then have a: "\<exists>st'. apply_op one_frame 0 (Append 5) = Inr st' \<and> frame_items (cells st' 0) = [1, 5]"
    by (intro exI [of _ st']) (simp add: one_frame_def)
  from inst have b: "apply_op ?fz 0 (Append 5) = Inl TypeError" by blast
  from inst sta have "frame_frozen (cells sta 0)" by blast
  with sta have c: "\<exists>st'. apply_ops ?fz 1 [Append 5] = Inr st' \<and> frame_frozen (cells st' 0)"
    by blast
  have d: "fst (frame_copy ?fz 0) = 1" using cp by (metis fst_conv)
  from inst2 nf obtain st2 where
    e0: "apply_ops (snd (frame_copy ?fz 0)) (fst (frame_copy ?fz 0)) [Append 7, SetTimestamp 3] = Inr st2"
      "cells st2 (fst (frame_copy ?fz 0)) =
         fold mutate [Append 7, SetTimestamp 3] (cells (snd (frame_copy ?fz 0)) (fst (frame_copy ?fz 0)))"
      "\<forall>c. c \<noteq> fst (frame_copy ?fz 0) \<longrightarrow> cells st2 c = cells ?fz c"
    by blast
  from e0(3) d have "cells st2 0 = cells ?fz 0" by simp
  then have e1: "frame_items (cells st2 0) = [1]" "frame_frozen (cells st2 0)"
    by (simp_all add: freeze_def one_frame_def)
  from e0(2) d have e2: "frame_items (cells st2 1) = [1, 7]"
    by (simp add: frame_copy_def freeze_def one_frame_def)
  from e0(1) d e1 e2 have e: "\<exists>st2. apply_ops (snd (frame_copy ?fz 0)) 1 [Append 7, SetTimestamp 3] = Inr st2 \<and>
      frame_items (cells st2 1) = [1, 7] \<and> frame_items (cells st2 0) = [1] \<and>
      frame_frozen (cells st2 0)"
    by (intro exI [of _ st2]) simp
  have nfz: "(0::nat) < next_free ?fz" by (simp add: freeze_def one_frame_def)
  have r2': "run_outputs [appending_sink, appending_sink] ''source'' ?fz 0 = (lm, st'', exc)"
    using r2 by simp
  from frame_freeze_and_copy [of ?fz 0 "Append 5" 1 "[Append 5]" sta
      "[appending_sink, appending_sink]" "''source''" lm st'' exc "[appending_sink]" lm1 st1
      "[appending_sink]"] r2' nfz
  have "cells st'' 0 = cells ?fz 0" by blast
  with r2' have f: "\<exists>lm st'' exc.
      run_outputs [appending_sink, appending_sink] ''source'' ?fz 0 = (lm, st'', exc) \<and>
      cells st'' 0 = cells ?fz 0"
    by blast
  from frame_freeze_and_copy [of ?fz 0 "Append 5" 1 "[Append 5]" sta
      "[appending_sink, appending_sink]" "''source''" lm st'' exc "[appending_sink]" lm1 st1
      "[appending_sink]"] r1 r2 exc1 n1
  have "cells st'' 1 = cells st1 1" by simp
  with r1 r2 exc1 exc items1 have g: "\<exists>lm1 st1 lm st''.
      run_outputs [appending_sink] ''source'' ?fz 0 = (lm1, st1, None) \<and>
      run_outputs ([appending_sink] @ [appending_sink]) ''source'' ?fz 0 = (lm, st'', None) \<and>
      frame_items (cells st1 1) = [1, 7] \<and> cells st'' 1 = cells st1 1"
    by blast
  from a b c d e f g show ?thesis by blast
qed

subsection \<open>Retries\<close>




lemma run_transforms_last:
  "run_transforms modls lm st a = (lm', st', exc) \<Longrightarrow> lm' = lm \<or> (\<exists>m \<in> set modls. lm' = tr_name m)"
  by (induction modls arbitrary: lm st) (auto split: sum.splits option.splits)










subsection \<open>Validation failure\<close>








lemma preview_short: "length s \<le> 55 \<Longrightarrow> preview s = s"
  by (simp add: preview_def)







lemma validate_valid:
  "v_call validator (PDict d) = Inr v \<Longrightarrow> validate render (PDict d) validator = ([], Valid v)"
  by (simp add: validate_def)



lemma walk_similar_key_task_example:
  "walk_similar_key render_scalar
     \<lparr>v_call = (\<lambda>c. Inr c),
      v_schema = SDict [(PKey ''input'', SWrap (SList [SWrap (SDict
        [(PKey ''type'', SLeaf),
         (PKey ''tasks'', SWrap (SList [SDict [(PKey ''name'', SLeaf), (PKey ''cron'', SLeaf)]]))])]))]\<rparr>
     (PDict [(''input'', PList [PDict
        [(''type'', PStr ''http''),
         (''tasks'', PList [PDict [(''name'', PStr ''a''), (''cron'', PStr ''* * * * *'')],
                            PDict [(''nmae'', PStr ''b''), (''cron'', PStr ''* * * * *'')]])]])])
     [PKey ''input'', PIdx 0, PKey ''tasks'', PIdx 1] (PKey ''nmae'')
   = Inr (Some ([''name''], ''b''))"
  by code_simp


end
